theory Spec2Isabelle
  imports Complex_Main "HOL-Library.Sublist"
begin

section \<open>JavaScript strings\<close>

text \<open>
  A JavaScript string is modelled as the list of its code units, and the model covers
  the code units below 256: a \<^typ>\<open>char\<close> stands for the code unit of the same
  number. The string methods the gateway calls are written out below as functions on
  lists; \<open>startsWith\<close> and \<open>includesStr\<close> are tied to the prefixes and the
  contiguous sublists of the library further down.
\<close>

text \<open>
  \<^verbatim>\<open>String.prototype.trim\<close> removes white space and line terminators from both
  ends. Below 256 these are TAB, LF, VT, FF, CR, SPACE and NBSP.
\<close>

definition isWhiteSpace :: "char \<Rightarrow> bool" where
  "isWhiteSpace c =
     (c = CHR 0x09 \<or> c = CHR 0x0A \<or> c = CHR 0x0B \<or> c = CHR 0x0C \<or> c = CHR 0x0D \<or>
      c = CHR 0x20 \<or> c = CHR 0xA0)"

definition trim :: "string \<Rightarrow> string" where
  "trim s = rev (dropWhile isWhiteSpace (rev (dropWhile isWhiteSpace s)))"

text \<open>
  \<^verbatim>\<open>String.prototype.toLowerCase\<close>: below 256 the letters with a lower-case form
  are A to Z and the Latin-1 capitals 0xC0 to 0xDE without the multiplication sign 0xD7;
  the lower-case form is 32 code units up.
\<close>

definition toLowerChar :: "char \<Rightarrow> char" where
  "toLowerChar c =
     (let n = (of_char c :: nat)
      in if (65 \<le> n \<and> n \<le> 90) \<or> (192 \<le> n \<and> n \<le> 222 \<and> n \<noteq> 215)
         then char_of (n + 32) else c)"

definition toLowerCase :: "string \<Rightarrow> string" where
  "toLowerCase s = map toLowerChar s"

text \<open>
  \<^verbatim>\<open>s.startsWith(p)\<close> and \<^verbatim>\<open>s.includes(w)\<close>; \<open>includes\<close> is a keyword of
  Isabelle, hence the longer name.
\<close>

fun startsWith :: "string \<Rightarrow> string \<Rightarrow> bool" where
  "startsWith s [] = True"
| "startsWith [] (p # ps) = False"
| "startsWith (c # cs) (p # ps) = (c = p \<and> startsWith cs ps)"

fun includesStr :: "string \<Rightarrow> string \<Rightarrow> bool" where
  "includesStr [] w = (w = [])"
| "includesStr (c # cs) w = (startsWith (c # cs) w \<or> includesStr cs w)"

text \<open>
  \<^verbatim>\<open>s.split(sep)\<close> for a separator of one code unit: the pieces between the
  separators, in order; a string without the separator is the only piece, so the result
  is never empty.
\<close>

fun split :: "char \<Rightarrow> string \<Rightarrow> string list" where
  "split sep [] = [[]]"
| "split sep (c # cs) =
     (if c = sep then [] # split sep cs
      else (case split sep cs of
              [] \<Rightarrow> [[c]]
            | w # ws \<Rightarrow> (c # w) # ws))"

text \<open>\<^verbatim>\<open>pieces.join(sep)\<close>.\<close>

fun join :: "string \<Rightarrow> string list \<Rightarrow> string" where
  "join sep [] = []"
| "join sep [w] = w"
| "join sep (w # v # ws) = w @ sep @ join sep (v # ws)"

text \<open>
  Reading the element at an index of an array, as a destructuring pattern does: past the
  end the value is \<^verbatim>\<open>undefined\<close>, here \<^const>\<open>None\<close>.
\<close>

fun element :: "'a list \<Rightarrow> nat \<Rightarrow> 'a option" where
  "element [] i = None"
| "element (x # xs) 0 = Some x"
| "element (x # xs) (Suc i) = element xs i"

text \<open>
  Truthiness of a value of type \<^verbatim>\<open>string | undefined\<close>: \<^verbatim>\<open>undefined\<close> and
  the empty string are falsy.
\<close>

fun truthy :: "string option \<Rightarrow> bool" where
  "truthy None = False"
| "truthy (Some s) = (s \<noteq> [])"

section \<open>The command whitelist (src/tools/system.ts)\<close>

text \<open>
  \<^verbatim>\<open>ALLOWED_COMMANDS\<close> is a \<^verbatim>\<open>Set\<close> built from an array literal;
  \<^verbatim>\<open>Array.from\<close> lists it in that order.
\<close>

definition ALLOWED_COMMANDS :: "string list" where
  "ALLOWED_COMMANDS =
     [''uptime'', ''hostname'', ''df'', ''free'', ''top'', ''ps'', ''who'', ''date'',
      ''uname'', ''lsblk'', ''lscpu'', ''lsmem'', ''vcgencmd'',
      ''cat /proc/cpuinfo'', ''cat /proc/meminfo'',
      ''cat /sys/class/thermal/thermal_zone0/temp'']"

text \<open>
  The body of \<^verbatim>\<open>isCommandAllowed\<close>, with the set it consults as a parameter, so
  that it can be stated for any configured list of entries.
\<close>

definition commandAllowedIn :: "string list \<Rightarrow> string \<Rightarrow> bool" where
  "commandAllowedIn allowedCommands cmd =
     (let trimmed = trim cmd
      in trimmed \<in> set allowedCommands \<or>
         list_ex (\<lambda>allowed. startsWith trimmed (allowed @ '' '')) allowedCommands)"

definition isCommandAllowed :: "string \<Rightarrow> bool" where
  "isCommandAllowed cmd = commandAllowedIn ALLOWED_COMMANDS cmd"

section \<open>The tool registry and dispatch (src/tools/index.ts)\<close>

text \<open>
  A \<^verbatim>\<open>CallToolResult\<close> carries a list of content blocks and the optional flag
  \<^verbatim>\<open>isError\<close>; every block the gateway builds is a text block.
\<close>

record ContentBlock =
  blockType :: string
  blockText :: string

record CallToolResult =
  content :: "ContentBlock list"
  isError :: "bool option"

text \<open>
  What a \<^verbatim>\<open>catch\<close> clause receives is any value at all. The clauses of the
  gateway ask whether it is an instance of \<^verbatim>\<open>Error\<close> and turn it into a string:
  for an instance, its \<^verbatim>\<open>message\<close> inside a template literal; for any other value,
  \<^verbatim>\<open>String(error)\<close>. Either conversion returns a string (\<^const>\<open>Inr\<close>) or throws
  in its turn (\<^const>\<open>Inl\<close>, with the value thrown): \<^verbatim>\<open>String\<close> throws a
  \<^verbatim>\<open>TypeError\<close> for an object without a conversion to a primitive, such as
  \<^verbatim>\<open>Object.create(null)\<close>, and whatever a \<^verbatim>\<open>toString\<close> of the value throws;
  the template literal throws a \<^verbatim>\<open>TypeError\<close> for a message that is a symbol.
\<close>

datatype thrown = ErrorInstance "thrown + string" | OtherValue "thrown + string"

text \<open>
  The settled state of a promise: fulfilled with a value, or rejected with the value
  thrown. A handler that throws before it returns its promise rejects in the same way
  inside the \<^verbatim>\<open>try\<close> block of \<^verbatim>\<open>callTool\<close>.
\<close>

datatype 'r promise = Fulfilled 'r | Rejected thrown

record 'a ToolDefinition =
  toolName :: string
  handler :: "'a \<Rightarrow> CallToolResult promise"

text \<open>
  \<^verbatim>\<open>toolRegistry\<close> is a \<^verbatim>\<open>Map\<close>, which keeps its keys in the order of their
  first insertion: an association list with one pair for each key.
\<close>

type_synonym 'a toolRegistry = "(string \<times> 'a ToolDefinition) list"

fun mapSet :: "'k \<Rightarrow> 'v \<Rightarrow> ('k \<times> 'v) list \<Rightarrow> ('k \<times> 'v) list" where
  "mapSet k v [] = [(k, v)]"
| "mapSet k v ((k', v') # kvs) =
     (if k' = k then (k, v) # kvs else (k', v') # mapSet k v kvs)"

definition registerTool :: "'a ToolDefinition \<Rightarrow> 'a toolRegistry \<Rightarrow> 'a toolRegistry" where
  "registerTool definition toolRegistry = mapSet (toolName definition) definition toolRegistry"

definition getAllTools :: "'a toolRegistry \<Rightarrow> string list" where
  "getAllTools toolRegistry = map (\<lambda>def. toolName def) (map snd toolRegistry)"

definition getToolHandler ::
  "'a toolRegistry \<Rightarrow> string \<Rightarrow> ('a \<Rightarrow> CallToolResult promise) option" where
  "getToolHandler toolRegistry name = map_option handler (map_of toolRegistry name)"

definition textBlock :: "string \<Rightarrow> ContentBlock" where
  "textBlock s = \<lparr>blockType = ''text'', blockText = s\<rparr>"

text \<open>
  The conversion in the \<^verbatim>\<open>catch\<close> clause:
  \<^verbatim>\<open>error instanceof Error ? error.message : String(error)\<close>, and the message in the
  template literal of the result.
\<close>

definition errorMessage :: "thrown \<Rightarrow> thrown + string" where
  "errorMessage error =
     (case error of ErrorInstance message \<Rightarrow> message | OtherValue converted \<Rightarrow> converted)"

text \<open>
  \<^verbatim>\<open>callTool\<close>. The conversion of the fault runs inside the \<^verbatim>\<open>catch\<close> clause,
  outside any \<^verbatim>\<open>try\<close>: when it throws, the promise of \<^verbatim>\<open>callTool\<close> is
  rejected with what it threw.
\<close>

definition callTool :: "'a toolRegistry \<Rightarrow> string \<Rightarrow> 'a \<Rightarrow> CallToolResult promise" where
  "callTool toolRegistry name args =
     (case getToolHandler toolRegistry name of
        None \<Rightarrow>
          Fulfilled \<lparr>content = [textBlock (''Unknown tool: '' @ name)], isError = Some True\<rparr>
      | Some h \<Rightarrow>
          (case h args of
             Fulfilled result \<Rightarrow> Fulfilled result
           | Rejected error \<Rightarrow>
               (case errorMessage error of
                  Inr message \<Rightarrow>
                    Fulfilled \<lparr>content = [textBlock (''Tool error: '' @ message)],
                               isError = Some True\<rparr>
                | Inl fault \<Rightarrow> Rejected fault)))"

section \<open>The authentication gate (src/auth.ts)\<close>

text \<open>
  The fields of a request that the gateway reads. A header that the request does not
  carry reads as \<^verbatim>\<open>undefined\<close>, here \<^const>\<open>None\<close>.
\<close>

record request =
  httpMethod :: string
  ip :: string
  authorization :: "string option"
  mcpSessionId :: "string option"

text \<open>A line written to the console, by the function that writes it.\<close>

datatype console = ConsoleError string | ConsoleWarn string | ConsoleLog string

text \<open>
  A JSON object with string values, as a list of its members. What a handler does with a
  request: it answers with a status and a JSON body, or it calls \<^verbatim>\<open>next()\<close>.
\<close>

type_synonym json = "(string \<times> string) list"

datatype outcome = Responded nat json | CalledNext

definition statusOf :: "outcome \<Rightarrow> nat option" where
  "statusOf out = (case out of Responded status body \<Rightarrow> Some status | CalledNext \<Rightarrow> None)"

definition authMiddleware :: "string option \<Rightarrow> request \<Rightarrow> console \<times> outcome" where
  "authMiddleware MCP_TOKEN req =
     (let authHeader = authorization req;
          expectedToken = MCP_TOKEN
      in if \<not> truthy expectedToken then
           (ConsoleError ''[AUTH] MCP_TOKEN not configured'',
            Responded 500 [(''error'', ''Server misconfigured'')])
         else if \<not> truthy authHeader then
           (ConsoleWarn (''[AUTH] Missing authorization header from '' @ ip req),
            Responded 401 [(''error'', ''Authorization required'')])
         else
           (let parts = split CHR '' '' (the authHeader);
                type = element parts 0;
                token = element parts 1
            in if type \<noteq> Some ''Bearer'' \<or> token \<noteq> expectedToken then
                 (ConsoleWarn (''[AUTH] Invalid token from '' @ ip req),
                  Responded 401 [(''error'', ''Invalid token'')])
               else
                 (ConsoleLog (''[AUTH] Authenticated request from '' @ ip req), CalledNext)))"

section \<open>Path containment (tools/filesystem.ts)\<close>

text \<open>
  The filesystem tools follow the Obsidian tools in \<^verbatim>\<open>src/tools/obsidian.ts\<close>;
  \<^verbatim>\<open>getAllowedPaths\<close> and \<^verbatim>\<open>isPathAllowed\<close> stand at their head.
\<close>

text \<open>
  \<^verbatim>\<open>path.resolve\<close> is the POSIX function of Node's \<^verbatim>\<open>node:path\<close>. It puts the
  working directory in front of a path that is not absolute and then normalises: the
  path is cut at its slashes, empty segments and \<^verbatim>\<open>.\<close> are dropped, and
  \<^verbatim>\<open>..\<close> removes the segment before it; at the root there is nothing to remove and
  \<^verbatim>\<open>..\<close> is dropped. Only a path that stays relative (\<open>allowAboveRoot\<close>) keeps a
  leading \<^verbatim>\<open>..\<close>. \<open>res\<close> holds the segments kept so far, the last one first.
\<close>

definition isAbsolute :: "string \<Rightarrow> bool" where
  "isAbsolute path = (case path of [] \<Rightarrow> False | c # cs \<Rightarrow> c = CHR ''/'')"

fun normalizeSegments :: "bool \<Rightarrow> string list \<Rightarrow> string list \<Rightarrow> string list" where
  "normalizeSegments allowAboveRoot res [] = rev res"
| "normalizeSegments allowAboveRoot res (seg # segs) =
     (if seg = [] \<or> seg = ''.'' then normalizeSegments allowAboveRoot res segs
      else if seg = ''..'' then
        (if res \<noteq> [] \<and> hd res \<noteq> ''..'' then normalizeSegments allowAboveRoot (tl res) segs
         else if allowAboveRoot then normalizeSegments allowAboveRoot (''..'' # res) segs
         else normalizeSegments allowAboveRoot res segs)
      else normalizeSegments allowAboveRoot (seg # res) segs)"

definition normalizeString :: "string \<Rightarrow> bool \<Rightarrow> string" where
  "normalizeString path allowAboveRoot =
     join ''/'' (normalizeSegments allowAboveRoot [] (split CHR ''/'' path))"

definition relativeOrDot :: "string \<Rightarrow> string" where
  "relativeOrDot normalized = (if normalized \<noteq> [] then normalized else ''.'')"

text \<open>
  \<^verbatim>\<open>path.resolve(path)\<close> in a process whose working directory is \<open>cwd\<close>. An
  empty argument is skipped, so the result is the working directory.
\<close>

definition resolve :: "string \<Rightarrow> string \<Rightarrow> string" where
  "resolve cwd path =
     (if isAbsolute path then ''/'' @ normalizeString (path @ ''/'') False
      else
        (let resolvedPath = (if path = [] then [] else path @ ''/'')
         in if cwd = [] then relativeOrDot (normalizeString resolvedPath True)
            else if isAbsolute cwd then
              ''/'' @ normalizeString (cwd @ ''/'' @ resolvedPath) False
            else relativeOrDot (normalizeString (cwd @ ''/'' @ resolvedPath) True)))"

text \<open>
  \<^verbatim>\<open>getAllowedPaths\<close> reads the environment variable \<^verbatim>\<open>ALLOWED_PATHS\<close>, which
  is a string or unset.
\<close>

definition getAllowedPaths :: "string option \<Rightarrow> string list" where
  "getAllowedPaths ALLOWED_PATHS =
     (let paths = (if truthy ALLOWED_PATHS then the ALLOWED_PATHS else [])
      in filter (\<lambda>p. p \<noteq> []) (map trim (split CHR '','' paths)))"

text \<open>
  \<^verbatim>\<open>isPathAllowed\<close>, in a process with the given environment variable and working
  directory. The warning it writes for an empty list is left out: it returns a boolean.
\<close>

definition isPathAllowed :: "string option \<Rightarrow> string \<Rightarrow> string \<Rightarrow> bool" where
  "isPathAllowed ALLOWED_PATHS cwd targetPath =
     (let allowed = getAllowedPaths ALLOWED_PATHS
      in if length allowed = 0 then False
         else
           (let resolved = resolve cwd targetPath
            in list_ex (\<lambda>allowedPath.
                 let resolvedAllowed = resolve cwd allowedPath
                 in startsWith resolved resolvedAllowed) allowed))"

section \<open>The statement filter and the row limit (tools/database.ts)\<close>

text \<open>
  The database tools follow the UniFi tools in \<^verbatim>\<open>src/tools/unifi.ts\<close>. The filter
  and the limit are the first part of the handler of the tool \<^verbatim>\<open>query_sqlite\<close>. Its
  arguments are \<^verbatim>\<open>args.query\<close>, a string, and \<^verbatim>\<open>args.limit\<close>, a number or
  absent (\<^const>\<open>None\<close>); \<^verbatim>\<open>(args.limit as number) || 100\<close> is 100 for a limit
  that is absent, zero or \<^verbatim>\<open>NaN\<close>.
\<close>

text \<open>
  A JavaScript number is a finite value, one of the two infinities, or
  \<^verbatim>\<open>NaN\<close>. A finite value is a rational number; it comes with the string that
  JavaScript prints for it, which the model reads only where it does not fix the string
  itself. The two zeros are the one finite value 0: both are falsy and print as
  \<^verbatim>\<open>0\<close>.
\<close>

datatype number = Finite rat string | PositiveInfinity | NegativeInfinity | NaN

text \<open>The constants of the handler.\<close>

definition hundred :: number where
  "hundred = Finite 100 ''100''"

definition thousand :: number where
  "thousand = Finite 1000 ''1000''"

text \<open>
  Truthiness of a number, for \<^verbatim>\<open>(args.limit as number) || 100\<close>: zero and
  \<^verbatim>\<open>NaN\<close> are falsy.
\<close>

definition truthyNumber :: "number \<Rightarrow> bool" where
  "truthyNumber n = (case n of Finite r printed \<Rightarrow> r \<noteq> 0 | NaN \<Rightarrow> False | _ \<Rightarrow> True)"

text \<open>\<^verbatim>\<open>Math.min(n, 1000)\<close>.\<close>

definition minThousand :: "number \<Rightarrow> number" where
  "minThousand n =
     (case n of
        Finite r printed \<Rightarrow> if r \<le> 1000 then n else thousand
      | PositiveInfinity \<Rightarrow> thousand
      | NegativeInfinity \<Rightarrow> NegativeInfinity
      | NaN \<Rightarrow> NaN)"

text \<open>
  A number in a template literal. For a whole number of magnitude up to
  \<open>2\<^sup>5\<^sup>3 - 1\<close> JavaScript prints the decimal digits, with a minus sign in front
  of a negative one. Any other finite number prints as the string it comes with: a
  number with a fraction with its fraction digits, a large one rounded to its shortest
  digits or in exponent notation.
\<close>

fun digitsOf :: "nat \<Rightarrow> string" where
  "digitsOf n =
     (if n < 10 then [''0123456789'' ! n]
      else digitsOf (n div 10) @ [''0123456789'' ! (n mod 10)])"

declare digitsOf.simps [simp del]

definition isSafeInteger :: "rat \<Rightarrow> bool" where
  "isSafeInteger r = (r = of_int \<lfloor>r\<rfloor> \<and> \<bar>r\<bar> \<le> 9007199254740991)"

definition numberToString :: "number \<Rightarrow> string" where
  "numberToString n =
     (case n of
        Finite r printed \<Rightarrow>
          if isSafeInteger r then
            (if r < 0 then ''-'' @ digitsOf (nat (- \<lfloor>r\<rfloor>)) else digitsOf (nat \<lfloor>r\<rfloor>))
          else printed
      | PositiveInfinity \<Rightarrow> ''Infinity''
      | NegativeInfinity \<Rightarrow> ''-Infinity''
      | NaN \<Rightarrow> ''NaN'')"

text \<open>
  An open database is what \<^verbatim>\<open>db.prepare(sql).all()\<close> does with a statement: it
  returns rows (\<^const>\<open>Inr\<close>) or it throws. What \<^verbatim>\<open>better-sqlite3\<close> throws
  is an instance of \<^verbatim>\<open>Error\<close> with a string as its message (\<^const>\<open>Inl\<close>, with
  the message). \<^verbatim>\<open>openDatabase()\<close> returns \<^verbatim>\<open>null\<close> when no
  database is configured or the file cannot be opened, here \<^const>\<open>None\<close>.
  \<open>stringify rows\<close> stands for the JSON text of the object with \<^verbatim>\<open>rowCount\<close> and
  \<^verbatim>\<open>rows\<close>.
\<close>

type_synonym 'rows database = "string \<Rightarrow> string + 'rows"

definition forbidden :: "string list" where
  "forbidden =
     [''insert'', ''update'', ''delete'', ''drop'', ''alter'', ''create'', ''attach'', ''detach'']"

definition errorResult :: "string \<Rightarrow> CallToolResult" where
  "errorResult s = \<lparr>content = [textBlock s], isError = Some True\<rparr>"

text \<open>
  The \<^verbatim>\<open>try\<close> block of the handler of \<^verbatim>\<open>query_sqlite\<close>, once the final
  statement is built: the rows of the statement as a result, or the fault the database
  threw as an error result.
\<close>

definition execute :: "'rows database \<Rightarrow> ('rows \<Rightarrow> string) \<Rightarrow> string \<Rightarrow> CallToolResult" where
  "execute db stringify finalQuery =
     (case db finalQuery of
        Inr rows \<Rightarrow> \<lparr>content = [textBlock (stringify rows)], isError = None\<rparr>
      | Inl message \<Rightarrow> errorResult (''Query failed: '' @ message))"

definition query_sqlite ::
  "'rows database option \<Rightarrow> ('rows \<Rightarrow> string) \<Rightarrow> string \<Rightarrow> number option \<Rightarrow> CallToolResult" where
  "query_sqlite openDatabase stringify queryArg limitArg =
     (case openDatabase of
        None \<Rightarrow> errorResult ''Database not configured or not available''
      | Some db \<Rightarrow>
          (let query = trim queryArg;
               limit = minThousand
                         (case limitArg of
                            None \<Rightarrow> hundred
                          | Some n \<Rightarrow> if truthyNumber n then n else hundred);
               normalized = toLowerCase query
           in if \<not> startsWith normalized ''select'' then
                errorResult
                  ''Only SELECT queries are allowed. Use list_tables to see available tables.''
              else
                (case find (\<lambda>word. includesStr normalized word) forbidden of
                   Some word \<Rightarrow> errorResult (''Query contains forbidden keyword: '' @ word)
                 | None \<Rightarrow>
                     (let finalQuery =
                            (if \<not> includesStr normalized ''limit''
                             then query @ '' LIMIT '' @ numberToString limit
                             else query)
                      in execute db stringify finalQuery))))"

section \<open>The session transport manager (server.ts)\<close>

text \<open>
  \<^verbatim>\<open>setupMCPRoutes\<close> is the last part of \<^verbatim>\<open>src/tools/obsidian.ts\<close>. Its state
  is the map \<^verbatim>\<open>transports\<close>, from session identifiers to transports.
\<close>

text \<open>
  A \<^verbatim>\<open>StreamableHTTPServerTransport\<close> belongs to the protocol library. The gateway
  reads one field of it, \<^verbatim>\<open>sessionId\<close>, and gives it two callbacks. What
  \<^verbatim>\<open>transport.handleRequest\<close> does with a request is a parameter of the model: the
  identifier it generated and passed to \<^verbatim>\<open>onsessioninitialized\<close> (if it initialised
  the session), whether it closed the transport and so called \<^verbatim>\<open>onclose\<close>, and the
  response it wrote.
\<close>

record transport =
  sessionId :: "string option"

record 'r handled =
  initialized :: "string option"
  closed :: bool
  reply :: 'r

type_synonym 'r library = "transport \<Rightarrow> request \<Rightarrow> 'r handled"

type_synonym transports = "string \<rightharpoonup> transport"

datatype 'r response = Json nat json | FromTransport 'r

text \<open>
  What serving a request leaves behind: the map of transports, the response, and whether
  a new transport was constructed and connected to the server.
\<close>

record 'r served =
  sessions :: transports
  answer :: "'r response"
  connected :: bool

text \<open>
  The two callbacks of \<^verbatim>\<open>setupMCPRoutes\<close>. The library sets the transport's
  \<^verbatim>\<open>sessionId\<close> to the generated identifier before it calls
  \<^verbatim>\<open>onsessioninitialized\<close> with it, and it initialises a transport once, so the
  transport stored in the map is the transport as its initialisation left it.
\<close>

definition onsessioninitialized :: "transport \<Rightarrow> string \<Rightarrow> transports \<Rightarrow> transports" where
  "onsessioninitialized transport newSessionId transports =
     transports(newSessionId \<mapsto> transport\<lparr>sessionId := Some newSessionId\<rparr>)"

definition onclose :: "transport \<Rightarrow> transports \<Rightarrow> transports" where
  "onclose transport transports =
     (let sid = sessionId transport
      in if truthy sid then transports(the sid := None) else transports)"

definition handleRequest ::
  "'r library \<Rightarrow> transport \<Rightarrow> request \<Rightarrow> transports \<Rightarrow> transports \<times> 'r response" where
  "handleRequest library transport req transports =
     (let h = library transport req;
          transport' = (case initialized h of
                          None \<Rightarrow> transport
                        | Some newSessionId \<Rightarrow> transport\<lparr>sessionId := Some newSessionId\<rparr>);
          transports' = (case initialized h of
                           None \<Rightarrow> transports
                         | Some newSessionId \<Rightarrow>
                             onsessioninitialized transport newSessionId transports);
          transports'' = (if closed h then onclose transport' transports' else transports')
      in (transports'', FromTransport (reply h)))"

text \<open>
  Every transport in the map is stored under its own session identifier: the only
  insertion is the one of \<^verbatim>\<open>onsessioninitialized\<close>.
\<close>

definition consistent :: "transports \<Rightarrow> bool" where
  "consistent transports =
     (\<forall>sid transport. transports sid = Some transport \<longrightarrow> sessionId transport = Some sid)"

text \<open>\<^verbatim>\<open>transports.has(key)\<close>.\<close>

definition has :: "transports \<Rightarrow> string \<Rightarrow> bool" where
  "has transports key = (transports key \<noteq> None)"

text \<open>
  The handler of \<^verbatim>\<open>app.all('/mcp', authMiddleware, ...)\<close>. In its second branch
  it constructs a transport, which has no session identifier yet, and connects it to the
  server; \<^verbatim>\<open>server.connect\<close> is taken to return.
\<close>

definition mcpHandler :: "'r library \<Rightarrow> transports \<Rightarrow> request \<Rightarrow> 'r served" where
  "mcpHandler library transports req =
     (let sessionId = mcpSessionId req
      in if truthy sessionId \<and> has transports (the sessionId) then
           (let transport = the (transports (the sessionId));
                (transports', res) = handleRequest library transport req transports
            in \<lparr>sessions = transports', answer = res, connected = False\<rparr>)
         else if httpMethod req = ''POST'' \<and> \<not> truthy sessionId then
           (let transport = \<lparr>sessionId = None\<rparr>;
                (transports', res) = handleRequest library transport req transports
            in \<lparr>sessions = transports', answer = res, connected = True\<rparr>)
         else if truthy sessionId \<and> \<not> has transports (the sessionId) then
           \<lparr>sessions = transports,
            answer = Json 400 [(''error'', ''Invalid session ID'')],
            connected = False\<rparr>
         else
           \<lparr>sessions = transports,
            answer = Json 200 [(''name'', ''pi-mcp-server''), (''version'', ''1.0.0''),
                               (''transport'', ''streamable-http'')],
            connected = False\<rparr>)"

text \<open>
  The handler of \<^verbatim>\<open>app.delete('/mcp', authMiddleware, ...)\<close>.
  \<^verbatim>\<open>transport.close()\<close> calls the transport's \<^verbatim>\<open>onclose\<close>.
\<close>

definition deleteHandler :: "transports \<Rightarrow> request \<Rightarrow> 'r served" where
  "deleteHandler transports req =
     (let sessionId = mcpSessionId req
      in if truthy sessionId \<and> has transports (the sessionId) then
           (let transport = the (transports (the sessionId));
                transports' = onclose transport transports;
                transports'' = transports'(the sessionId := None)
            in \<lparr>sessions = transports'',
                answer = Json 200 [(''status'', ''closed'')],
                connected = False\<rparr>)
         else
           \<lparr>sessions = transports,
            answer = Json 404 [(''error'', ''Session not found'')],
            connected = False\<rparr>)"

text \<open>
  The routes of the path \<^verbatim>\<open>/mcp\<close>, in the order \<^verbatim>\<open>setupMCPRoutes\<close> registers
  them. Express gives a request to the first route whose method matches, and to the
  next one only when a handler calls \<^verbatim>\<open>next()\<close>. \<^verbatim>\<open>authMiddleware\<close> calls it
  to pass the request on to the route's handler; the two handlers never call it. With
  no route for a request Express answers 404 itself; the first route here matches every
  method, so that case is never taken.
\<close>

datatype verb = AnyMethod | OnlyMethod string

definition verbMatches :: "verb \<Rightarrow> request \<Rightarrow> bool" where
  "verbMatches v req = (case v of AnyMethod \<Rightarrow> True | OnlyMethod m \<Rightarrow> httpMethod req = m)"

definition mcpRoutes :: "'r library \<Rightarrow> (verb \<times> (transports \<Rightarrow> request \<Rightarrow> 'r served)) list" where
  "mcpRoutes library = [(AnyMethod, mcpHandler library), (OnlyMethod ''DELETE'', deleteHandler)]"

definition mcpEndpoint ::
  "string option \<Rightarrow> 'r library \<Rightarrow> transports \<Rightarrow> request \<Rightarrow> 'r served" where
  "mcpEndpoint MCP_TOKEN library transports req =
     (case find (\<lambda>route. verbMatches (fst route) req) (mcpRoutes library) of
        None \<Rightarrow> \<lparr>sessions = transports, answer = Json 404 [], connected = False\<rparr>
      | Some route \<Rightarrow>
          (case snd (authMiddleware MCP_TOKEN req) of
             Responded status body \<Rightarrow>
               \<lparr>sessions = transports, answer = Json status body, connected = False\<rparr>
           | CalledNext \<Rightarrow> snd route transports req))"

section \<open>Facts about the string functions\<close>

lemma startsWith_prefix: "startsWith s p \<longleftrightarrow> prefix p s"
  by (induction s p rule: startsWith.induct) auto

lemma startsWith_append: "startsWith s p \<longleftrightarrow> (\<exists>rest. s = p @ rest)"
  by (simp add: startsWith_prefix prefix_def)

lemma includes_sublist: "includesStr s w \<longleftrightarrow> sublist w s"
proof (induction s)
  case Nil
  then show ?case by simp
next
  case (Cons c cs)
  then show ?case
    by (simp add: sublist_Cons_right startsWith_prefix)
qed

lemma includes_append: "includesStr s w \<longleftrightarrow> (\<exists>before after. s = before @ w @ after)"
  by (simp add: includes_sublist sublist_def)

lemma includes_suffix: "includesStr (before @ w) w"
  by (simp add: includes_sublist)

lemma list_ex_startsWith:
  "list_ex (\<lambda>allowed. startsWith s (allowed @ sep)) xs \<longleftrightarrow>
     (\<exists>entry\<in>set xs. \<exists>rest. s = entry @ sep @ rest)"
  by (simp add: list_ex_iff startsWith_append)

lemmas string_eval = trim_def isWhiteSpace_def toLowerCase_def toLowerChar_def char_of_eq_iff

section \<open>The command whitelist\<close>

text \<open>
  Claim C4, as it is written, says that a command is allowed exactly when the command
  string itself equals a configured entry or begins with an entry followed by a space.
  \<^verbatim>\<open>isCommandAllowed\<close> trims the command first, so the command \<^verbatim>\<open>" df"\<close>,
  with a space in front, is allowed although it neither equals an entry nor begins with
  one.
\<close>

theorem command_whitelist_untrimmed_counterexample:
  "\<not> (commandAllowedIn [''df'', ''uptime''] '' df'' \<longleftrightarrow>
        ('' df'' \<in> set [''df'', ''uptime''] \<or>
         (\<exists>entry\<in>set [''df'', ''uptime'']. \<exists>arguments. '' df'' = entry @ '' '' @ arguments)))"
  by (simp add: commandAllowedIn_def string_eval)

text \<open>
  Claim C4, amended: a command is allowed if and only if, once the white space around it
  is trimmed, it equals a configured entry or begins with a configured entry followed by
  a space. With the entries \<^verbatim>\<open>df\<close> and \<^verbatim>\<open>uptime\<close>, and with the entries of
  \<^verbatim>\<open>ALLOWED_COMMANDS\<close> as well, \<^verbatim>\<open>df -h\<close> is allowed, and \<^verbatim>\<open>rm -rf /\<close> and
  \<^verbatim>\<open>dfx\<close> are denied.
\<close>

theorem command_whitelist_after_trim:
  "(commandAllowedIn allowedCommands cmd \<longleftrightarrow>
      (trim cmd \<in> set allowedCommands \<or>
       (\<exists>entry\<in>set allowedCommands. \<exists>arguments. trim cmd = entry @ '' '' @ arguments))) \<and>
   commandAllowedIn [''df'', ''uptime''] ''df -h'' \<and>
   \<not> commandAllowedIn [''df'', ''uptime''] ''rm -rf /'' \<and>
   \<not> commandAllowedIn [''df'', ''uptime''] ''dfx'' \<and>
   isCommandAllowed ''df -h'' \<and>
   \<not> isCommandAllowed ''rm -rf /'' \<and>
   \<not> isCommandAllowed ''dfx''"
proof -
  have general: "commandAllowedIn allowedCommands cmd \<longleftrightarrow>
      (trim cmd \<in> set allowedCommands \<or>
       (\<exists>entry\<in>set allowedCommands. \<exists>arguments. trim cmd = entry @ '' '' @ arguments))"
    by (simp add: commandAllowedIn_def Let_def list_ex_startsWith)
  have configured: "commandAllowedIn [''df'', ''uptime''] ''df -h''"
    "\<not> commandAllowedIn [''df'', ''uptime''] ''rm -rf /''"
    "\<not> commandAllowedIn [''df'', ''uptime''] ''dfx''"
    by (simp_all add: commandAllowedIn_def string_eval)
  have builtin: "isCommandAllowed ''df -h''" "\<not> isCommandAllowed ''rm -rf /''"
    "\<not> isCommandAllowed ''dfx''"
    by (simp_all add: isCommandAllowed_def ALLOWED_COMMANDS_def commandAllowedIn_def string_eval)
  from general configured builtin show ?thesis by blast
qed

theorem command_whitelist_after_trim_witness:
  "commandAllowedIn [''df'', ''uptime''] ''  uptime -p '' \<and>
   trim ''  uptime -p '' = ''uptime'' @ '' '' @ ''-p''"
  using command_whitelist_after_trim [of "[''df'', ''uptime'']" "''  uptime -p ''"]
  by (simp add: string_eval)

section \<open>The authentication gate\<close>

lemma split_no_separator: "sep \<notin> set w \<Longrightarrow> split sep w = [w]"
  by (induction w) auto

lemma split_at_separator: "sep \<notin> set w \<Longrightarrow> split sep (w @ sep # rest) = w # split sep rest"
  by (induction w) auto

lemma split_bearer:
  assumes "CHR '' '' \<notin> set credential"
  shows "split CHR '' '' (''Bearer '' @ credential) = [''Bearer'', credential]"
proof -
  have "split CHR '' '' (''Bearer'' @ CHR '' '' # credential) = ''Bearer'' # split CHR '' '' credential"
    by (rule split_at_separator) simp
  with assms show ?thesis by (simp add: split_no_separator)
qed

text \<open>
  Claim C1, as it is written, says that the rejection of a request without the
  \<^verbatim>\<open>Authorization\<close> header and the rejection of a request with a wrong token are
  equal in what the caller observes, and that a request bearing the configured token is
  accepted. The two rejections have the same status and different bodies
  (\<^verbatim>\<open>Authorization required\<close> and \<^verbatim>\<open>Invalid token\<close>). And the header is cut at
  every space, so for a configured token with a space in it the header
  \<^verbatim>\<open>Bearer\<close> followed by that token is rejected.
\<close>

theorem auth_gate_counterexample:
  "snd (authMiddleware (Some ''secret'')
          \<lparr>httpMethod = ''POST'', ip = ''10.0.0.7'', authorization = None, mcpSessionId = None\<rparr>) \<noteq>
   snd (authMiddleware (Some ''secret'')
          \<lparr>httpMethod = ''POST'', ip = ''10.0.0.7'', authorization = Some ''Bearer wrong'',
           mcpSessionId = None\<rparr>) \<and>
   snd (authMiddleware (Some ''two words'')
          \<lparr>httpMethod = ''POST'', ip = ''10.0.0.7'', authorization = Some ''Bearer two words'',
           mcpSessionId = None\<rparr>) \<noteq> CalledNext"
  by (simp add: authMiddleware_def)

text \<open>
  Claim C1, amended, for a configured (non-empty) token. A request without the header,
  or with an empty one, is answered with status 401 and the body
  \<^verbatim>\<open>Authorization required\<close>. A request whose header, cut at its spaces, does not
  have \<^verbatim>\<open>Bearer\<close> as its first piece and the token as its second one is answered
  with status 401 and the body \<^verbatim>\<open>Invalid token\<close>; a header \<^verbatim>\<open>Bearer\<close> with
  another credential, one without a space, is such a header. So the two kinds of rejection agree in the
  status, 401, and every rejection has the status of the rejection of a request without
  the header; they differ in the body and in the line written to the console. A request
  whose header is \<^verbatim>\<open>Bearer\<close>, a space, and the token is passed on with
  \<^verbatim>\<open>next()\<close>, when the token has no space in it.
\<close>

theorem auth_gate_same_status:
  assumes configured: "token \<noteq> []"
  shows
  "(\<not> truthy (authorization req) \<longrightarrow>
      authMiddleware (Some token) req =
        (ConsoleWarn (''[AUTH] Missing authorization header from '' @ ip req),
         Responded 401 [(''error'', ''Authorization required'')])) \<and>
   (truthy (authorization req) \<and>
      (element (split CHR '' '' (the (authorization req))) 0 \<noteq> Some ''Bearer'' \<or>
       element (split CHR '' '' (the (authorization req))) 1 \<noteq> Some token) \<longrightarrow>
      authMiddleware (Some token) req =
        (ConsoleWarn (''[AUTH] Invalid token from '' @ ip req),
         Responded 401 [(''error'', ''Invalid token'')])) \<and>
   (CHR '' '' \<notin> set other \<and> other \<noteq> token \<and> authorization req = Some (''Bearer '' @ other) \<longrightarrow>
      snd (authMiddleware (Some token) req) = Responded 401 [(''error'', ''Invalid token'')]) \<and>
   (\<not> truthy (authorization req) \<and> snd (authMiddleware (Some token) req') \<noteq> CalledNext \<longrightarrow>
      statusOf (snd (authMiddleware (Some token) req)) =
      statusOf (snd (authMiddleware (Some token) req')) \<and>
      statusOf (snd (authMiddleware (Some token) req)) = Some 401) \<and>
   (CHR '' '' \<notin> set token \<and> authorization req = Some (''Bearer '' @ token) \<longrightarrow>
      authMiddleware (Some token) req =
        (ConsoleLog (''[AUTH] Authenticated request from '' @ ip req), CalledNext))"
proof -
  have missing: "\<not> truthy (authorization req) \<Longrightarrow>
      authMiddleware (Some token) req =
        (ConsoleWarn (''[AUTH] Missing authorization header from '' @ ip req),
         Responded 401 [(''error'', ''Authorization required'')])" for req
    using configured by (simp add: authMiddleware_def)
  have invalid: "truthy (authorization req) \<Longrightarrow>
      element (split CHR '' '' (the (authorization req))) 0 \<noteq> Some ''Bearer'' \<or>
      element (split CHR '' '' (the (authorization req))) 1 \<noteq> Some token \<Longrightarrow>
      authMiddleware (Some token) req =
        (ConsoleWarn (''[AUTH] Invalid token from '' @ ip req),
         Responded 401 [(''error'', ''Invalid token'')])" for req
    using configured by (simp add: authMiddleware_def Let_def)
  have other: "CHR '' '' \<notin> set other \<Longrightarrow> other \<noteq> token \<Longrightarrow>
      authorization req = Some (''Bearer '' @ other) \<Longrightarrow>
      snd (authMiddleware (Some token) req) = Responded 401 [(''error'', ''Invalid token'')]"
  proof -
    assume a: "CHR '' '' \<notin> set other" "other \<noteq> token"
       "authorization req = Some (''Bearer '' @ other)"
    from a(1) have "split CHR '' '' (''Bearer '' @ other) = [''Bearer'', other]"
      by (rule split_bearer)
    with a have "truthy (authorization req)"
      "element (split CHR '' '' (the (authorization req))) 1 \<noteq> Some token"
      by simp_all
    then show ?thesis using invalid [of req] by simp
  qed
  have status: "snd (authMiddleware (Some token) req') \<noteq> CalledNext \<Longrightarrow>
      statusOf (snd (authMiddleware (Some token) req')) = Some 401" for req'
    using configured by (auto simp add: authMiddleware_def Let_def statusOf_def split: if_splits)
  have accepted: "CHR '' '' \<notin> set token \<Longrightarrow> authorization req = Some (''Bearer '' @ token) \<Longrightarrow>
      authMiddleware (Some token) req =
        (ConsoleLog (''[AUTH] Authenticated request from '' @ ip req), CalledNext)"
  proof -
    assume a: "CHR '' '' \<notin> set token" "authorization req = Some (''Bearer '' @ token)"
    from a(1) have "split CHR '' '' (''Bearer '' @ token) = [''Bearer'', token]"
      by (rule split_bearer)
    with a configured show ?thesis
      by (simp add: authMiddleware_def Let_def)
  qed
  from missing [of req] invalid [of req] other status [of req'] accepted
  show ?thesis by (simp add: statusOf_def)
qed

theorem auth_gate_same_status_witness:
  "''secret'' \<noteq> [] \<and>
   snd (authMiddleware (Some ''secret'')
          \<lparr>httpMethod = ''POST'', ip = ''10.0.0.7'', authorization = None, mcpSessionId = None\<rparr>) =
     Responded 401 [(''error'', ''Authorization required'')] \<and>
   snd (authMiddleware (Some ''secret'')
          \<lparr>httpMethod = ''POST'', ip = ''10.0.0.7'', authorization = Some ''Basic secret'',
           mcpSessionId = None\<rparr>) =
     Responded 401 [(''error'', ''Invalid token'')] \<and>
   snd (authMiddleware (Some ''secret'')
          \<lparr>httpMethod = ''POST'', ip = ''10.0.0.7'', authorization = Some ''Bearer wrong'',
           mcpSessionId = None\<rparr>) =
     Responded 401 [(''error'', ''Invalid token'')] \<and>
   snd (authMiddleware (Some ''secret'')
          \<lparr>httpMethod = ''POST'', ip = ''10.0.0.7'', authorization = Some ''Bearer secret'',
           mcpSessionId = None\<rparr>) = CalledNext \<and>
   statusOf (snd (authMiddleware (Some ''secret'')
          \<lparr>httpMethod = ''POST'', ip = ''10.0.0.7'', authorization = None,
           mcpSessionId = None\<rparr>)) =
   statusOf (snd (authMiddleware (Some ''secret'')
          \<lparr>httpMethod = ''POST'', ip = ''10.0.0.7'', authorization = Some ''Bearer wrong'',
           mcpSessionId = None\<rparr>))"
  using
    auth_gate_same_status [of "''secret''"
      "\<lparr>httpMethod = ''POST'', ip = ''10.0.0.7'', authorization = None, mcpSessionId = None\<rparr>"
      "''wrong''"
      "\<lparr>httpMethod = ''POST'', ip = ''10.0.0.7'', authorization = Some ''Bearer wrong'',
        mcpSessionId = None\<rparr>"]
    auth_gate_same_status [of "''secret''"
      "\<lparr>httpMethod = ''POST'', ip = ''10.0.0.7'', authorization = Some ''Basic secret'',
        mcpSessionId = None\<rparr>"
      "''wrong''"
      "\<lparr>httpMethod = ''POST'', ip = ''10.0.0.7'', authorization = None, mcpSessionId = None\<rparr>"]
    auth_gate_same_status [of "''secret''"
      "\<lparr>httpMethod = ''POST'', ip = ''10.0.0.7'', authorization = Some ''Bearer wrong'',
        mcpSessionId = None\<rparr>"
      "''wrong''"
      "\<lparr>httpMethod = ''POST'', ip = ''10.0.0.7'', authorization = None, mcpSessionId = None\<rparr>"]
    auth_gate_same_status [of "''secret''"
      "\<lparr>httpMethod = ''POST'', ip = ''10.0.0.7'', authorization = Some ''Bearer secret'',
        mcpSessionId = None\<rparr>"
      "''wrong''"
      "\<lparr>httpMethod = ''POST'', ip = ''10.0.0.7'', authorization = None, mcpSessionId = None\<rparr>"]
  by (simp add: statusOf_def)


section \<open>Path containment\<close>

lemmas path_eval = resolve_def isAbsolute_def normalizeString_def relativeOrDot_def

lemma isPathAllowed_iff:
  "isPathAllowed ALLOWED_PATHS cwd targetPath \<longleftrightarrow>
     (\<exists>allowedPath\<in>set (getAllowedPaths ALLOWED_PATHS).
        startsWith (resolve cwd targetPath) (resolve cwd allowedPath))"
  by (cases "getAllowedPaths ALLOWED_PATHS") (simp_all add: isPathAllowed_def Let_def list_ex_iff)

text \<open>
  The resolved form is canonical: a slash followed by segments joined with slashes, none
  of them empty, \<^verbatim>\<open>.\<close> or \<^verbatim>\<open>..\<close>.
\<close>

lemma split_pieces: "\<forall>w\<in>set (split sep s). sep \<notin> set w"
  by (induction s) (auto split: list.splits)

lemma normalizeSegments_kept:
  assumes "\<forall>s\<in>set res. s \<noteq> [] \<and> s \<noteq> ''.'' \<and> s \<noteq> ''..'' \<and> CHR ''/'' \<notin> set s"
    and "\<forall>s\<in>set segs. CHR ''/'' \<notin> set s"
  shows "\<forall>s\<in>set (normalizeSegments False res segs).
           s \<noteq> [] \<and> s \<noteq> ''.'' \<and> s \<noteq> ''..'' \<and> CHR ''/'' \<notin> set s"
  using assms
proof (induction segs arbitrary: res)
  case Nil
  then show ?case by simp
next
  case (Cons seg segs)
  have tl: "\<forall>s\<in>set (tl res). s \<noteq> [] \<and> s \<noteq> ''.'' \<and> s \<noteq> ''..'' \<and> CHR ''/'' \<notin> set s"
    using Cons.prems(1) by (cases res) simp_all
  have rest: "\<forall>s\<in>set segs. CHR ''/'' \<notin> set s"
    using Cons.prems(2) by simp
  show ?case
  proof (cases "seg = [] \<or> seg = ''.''")
    case True
    with Cons.IH [OF Cons.prems(1) rest] show ?thesis by auto
  next
    case False
    note plain = this
    show ?thesis
    proof (cases "seg = ''..''")
      case True
      with Cons.IH [OF Cons.prems(1) rest] Cons.IH [OF tl rest] show ?thesis by simp
    next
      case False
      with plain Cons.prems have
        "\<forall>s\<in>set (seg # res). s \<noteq> [] \<and> s \<noteq> ''.'' \<and> s \<noteq> ''..'' \<and> CHR ''/'' \<notin> set s"
        by simp
      from Cons.IH [OF this rest] plain False show ?thesis by simp
    qed
  qed
qed

lemma resolve_canonical:
  assumes "isAbsolute cwd"
  shows "\<exists>segments. resolve cwd targetPath = ''/'' @ join ''/'' segments \<and>
           (\<forall>s\<in>set segments. s \<noteq> [] \<and> s \<noteq> ''.'' \<and> s \<noteq> ''..'' \<and> CHR ''/'' \<notin> set s)"
proof -
  have "\<forall>s\<in>set (normalizeSegments False [] (split CHR ''/'' p)).
          s \<noteq> [] \<and> s \<noteq> ''.'' \<and> s \<noteq> ''..'' \<and> CHR ''/'' \<notin> set s" for p
    by (rule normalizeSegments_kept) (simp_all add: split_pieces)
  moreover from assms have "\<exists>p. resolve cwd targetPath =
      ''/'' @ join ''/'' (normalizeSegments False [] (split CHR ''/'' p))"
    by (auto simp add: resolve_def normalizeString_def isAbsolute_def Let_def)
  ultimately show ?thesis by metis
qed

text \<open>
  Claim C2, as it is written, compares the resolved candidate with the configured path.
  \<^verbatim>\<open>isPathAllowed\<close> resolves the configured path as well. With the entry
  \<^verbatim>\<open>/data/\<close> the candidate \<^verbatim>\<open>/data\<close>, the directory itself, is allowed,
  although \<^verbatim>\<open>/data/\<close> is not a prefix of it; with the relative entry
  \<^verbatim>\<open>notes\<close> in the working directory \<^verbatim>\<open>/home/pi\<close>, the candidate
  \<^verbatim>\<open>/home/pi/notes/a\<close> is allowed, although it does not begin with \<^verbatim>\<open>notes\<close>.
\<close>

theorem path_containment_entry_counterexample:
  "\<not> (isPathAllowed (Some ''/data/'') ''/home/pi'' ''/data'' \<longleftrightarrow>
        (\<exists>allowedPath\<in>set (getAllowedPaths (Some ''/data/'')).
           startsWith (resolve ''/home/pi'' ''/data'') allowedPath)) \<and>
   \<not> (isPathAllowed (Some ''notes'') ''/home/pi'' ''/home/pi/notes/a'' \<longleftrightarrow>
        (\<exists>allowedPath\<in>set (getAllowedPaths (Some ''notes'')).
           startsWith (resolve ''/home/pi'' ''/home/pi/notes/a'') allowedPath))"
  by (simp add: isPathAllowed_def getAllowedPaths_def path_eval string_eval)

text \<open>
  Claim C2, amended: the candidate and every configured path are resolved to canonical
  absolute form. The candidate is allowed when its resolved form is the resolved form
  of a configured path or lies beneath it, that is, begins with it and a slash (for the
  root, which ends in its slash, when it is absolute). It is denied when its resolved
  form does not begin with the resolved form of any configured path. When
  \<^verbatim>\<open>/data\<close> is the only configured path, \<^verbatim>\<open>/data/sub/file.txt\<close> is allowed,
  and \<^verbatim>\<open>/etc/passwd\<close> and \<^verbatim>\<open>/data/../etc/passwd\<close>, which resolves to
  \<^verbatim>\<open>/etc/passwd\<close>, are denied. When no path is configured, every candidate is
  denied. The resolved form is absolute and canonical, the working directory of a
  process being an absolute path.
\<close>

theorem path_containment_within:
  "(allowedPath \<in> set (getAllowedPaths ALLOWED_PATHS) \<and>
      (resolve cwd targetPath = resolve cwd allowedPath \<or>
       startsWith (resolve cwd targetPath) (resolve cwd allowedPath @ ''/'') \<or>
       resolve cwd allowedPath = ''/'' \<and> isAbsolute (resolve cwd targetPath)) \<longrightarrow>
      isPathAllowed ALLOWED_PATHS cwd targetPath) \<and>
   (\<not> (\<exists>entry\<in>set (getAllowedPaths ALLOWED_PATHS).
          \<exists>rest. resolve cwd targetPath = resolve cwd entry @ rest) \<longrightarrow>
      \<not> isPathAllowed ALLOWED_PATHS cwd targetPath) \<and>
   (getAllowedPaths ALLOWED_PATHS = [''/data''] \<longrightarrow>
      isPathAllowed ALLOWED_PATHS cwd ''/data/sub/file.txt'' \<and>
      \<not> isPathAllowed ALLOWED_PATHS cwd ''/etc/passwd'' \<and>
      resolve cwd ''/data/../etc/passwd'' = ''/etc/passwd'' \<and>
      \<not> isPathAllowed ALLOWED_PATHS cwd ''/data/../etc/passwd'') \<and>
   (getAllowedPaths ALLOWED_PATHS = [] \<longrightarrow> \<not> isPathAllowed ALLOWED_PATHS cwd targetPath) \<and>
   (isAbsolute cwd \<longrightarrow>
      isAbsolute (resolve cwd targetPath) \<and>
      (\<exists>segments. resolve cwd targetPath = ''/'' @ join ''/'' segments \<and>
         (\<forall>s\<in>set segments. s \<noteq> [] \<and> s \<noteq> ''.'' \<and> s \<noteq> ''..'' \<and> CHR ''/'' \<notin> set s)))"
proof -
  note canonical_form = resolve_canonical [of cwd targetPath]
  have absolute: "isAbsolute (resolve cwd targetPath)" if "isAbsolute cwd"
    using that by (auto simp add: resolve_def isAbsolute_def Let_def)
  have within: "isPathAllowed ALLOWED_PATHS cwd targetPath"
    if entry: "allowedPath \<in> set (getAllowedPaths ALLOWED_PATHS)"
      and place: "resolve cwd targetPath = resolve cwd allowedPath \<or>
        startsWith (resolve cwd targetPath) (resolve cwd allowedPath @ ''/'') \<or>
        resolve cwd allowedPath = ''/'' \<and> isAbsolute (resolve cwd targetPath)"
  proof -
    from place have "startsWith (resolve cwd targetPath) (resolve cwd allowedPath)"
    proof (elim disjE conjE)
      assume "resolve cwd targetPath = resolve cwd allowedPath"
      then show ?thesis by (simp add: startsWith_prefix)
    next
      assume "startsWith (resolve cwd targetPath) (resolve cwd allowedPath @ ''/'')"
      then show ?thesis by (auto simp add: startsWith_append)
    next
      assume "resolve cwd allowedPath = ''/''" "isAbsolute (resolve cwd targetPath)"
      then show ?thesis by (cases "resolve cwd targetPath") (simp_all add: isAbsolute_def)
    qed
    with entry show ?thesis by (auto simp add: isPathAllowed_iff)
  qed
  have outside: "\<not> isPathAllowed ALLOWED_PATHS cwd targetPath"
    if "\<not> (\<exists>entry\<in>set (getAllowedPaths ALLOWED_PATHS).
          \<exists>rest. resolve cwd targetPath = resolve cwd entry @ rest)"
    using that by (simp add: isPathAllowed_iff startsWith_append)
  have canonical: "resolve cwd ''/data/../etc/passwd'' = ''/etc/passwd''"
    by (simp add: path_eval)
  have data: "isPathAllowed ALLOWED_PATHS cwd ''/data/sub/file.txt''"
    "\<not> isPathAllowed ALLOWED_PATHS cwd ''/etc/passwd''"
    "\<not> isPathAllowed ALLOWED_PATHS cwd ''/data/../etc/passwd''"
    if "getAllowedPaths ALLOWED_PATHS = [''/data'']"
    using that by (simp_all add: isPathAllowed_iff path_eval)
  have none: "\<not> isPathAllowed ALLOWED_PATHS cwd targetPath"
    if "getAllowedPaths ALLOWED_PATHS = []"
    using that by (simp add: isPathAllowed_iff)
  from within outside canonical data none absolute canonical_form show ?thesis by blast
qed

theorem path_containment_within_witness:
  "getAllowedPaths (Some ''/data'') = [''/data''] \<and>
   isAbsolute ''/home/pi'' \<and>
   isAbsolute (resolve ''/home/pi'' ''notes/../todo.txt'') \<and>
   isPathAllowed (Some ''/data'') ''/home/pi'' ''/data/sub/file.txt'' \<and>
   \<not> isPathAllowed (Some ''/data'') ''/home/pi'' ''/etc/passwd'' \<and>
   \<not> isPathAllowed (Some ''/data'') ''/home/pi'' ''/data/../etc/passwd'' \<and>
   ''/srv/'' \<in> set (getAllowedPaths (Some ''/data, /srv/'')) \<and>
   startsWith (resolve ''/home/pi'' ''/srv/www/../logs/a.log'')
     (resolve ''/home/pi'' ''/srv/'' @ ''/'') \<and>
   isPathAllowed (Some ''/data, /srv/'') ''/home/pi'' ''/srv/www/../logs/a.log'' \<and>
   \<not> (\<exists>entry\<in>set (getAllowedPaths (Some ''/data, /srv/'')).
         \<exists>rest. resolve ''/home/pi'' ''/srv/../etc/shadow'' = resolve ''/home/pi'' entry @ rest) \<and>
   \<not> isPathAllowed (Some ''/data, /srv/'') ''/home/pi'' ''/srv/../etc/shadow'' \<and>
   getAllowedPaths None = [] \<and>
   \<not> isPathAllowed None ''/home/pi'' ''/data/sub/file.txt'' \<and>
   getAllowedPaths (Some '' , '') = [] \<and>
   \<not> isPathAllowed (Some '' , '') ''/home/pi'' ''/''"
proof -
  have config: "getAllowedPaths (Some ''/data'') = [''/data'']"
    "getAllowedPaths (Some ''/data, /srv/'') = [''/data'', ''/srv/'']"
    "getAllowedPaths None = []" "getAllowedPaths (Some '' , '') = []"
    by (simp_all add: getAllowedPaths_def string_eval)
  have paths: "isAbsolute ''/home/pi''"
    "startsWith (resolve ''/home/pi'' ''/srv/www/../logs/a.log'')
       (resolve ''/home/pi'' ''/srv/'' @ ''/'')"
    "\<not> (\<exists>entry\<in>set [''/data'', ''/srv/''].
         \<exists>rest. resolve ''/home/pi'' ''/srv/../etc/shadow'' = resolve ''/home/pi'' entry @ rest)"
    by (simp_all add: path_eval)
  note data = path_containment_within [of "''/data''" "Some ''/data''" "''/home/pi''"
      "''notes/../todo.txt''"]
  note srv = path_containment_within [of "''/srv/''" "Some ''/data, /srv/''" "''/home/pi''"
      "''/srv/www/../logs/a.log''"]
  note shadow = path_containment_within [of "''/srv/''" "Some ''/data, /srv/''" "''/home/pi''"
      "''/srv/../etc/shadow''"]
  note unset = path_containment_within [of "''/data''" None "''/home/pi''"
      "''/data/sub/file.txt''"]
  note blank = path_containment_within [of "''/data''" "Some '' , ''" "''/home/pi''" "''/''"]
  from data config(1) paths(1) have d: "isAbsolute (resolve ''/home/pi'' ''notes/../todo.txt'')"
    "isPathAllowed (Some ''/data'') ''/home/pi'' ''/data/sub/file.txt''"
    "\<not> isPathAllowed (Some ''/data'') ''/home/pi'' ''/etc/passwd''"
    "\<not> isPathAllowed (Some ''/data'') ''/home/pi'' ''/data/../etc/passwd''"
    by blast+
  from srv config(2) paths(2)
  have s: "isPathAllowed (Some ''/data, /srv/'') ''/home/pi'' ''/srv/www/../logs/a.log''"
    by simp
  from shadow config(2) paths(3)
  have e: "\<not> isPathAllowed (Some ''/data, /srv/'') ''/home/pi'' ''/srv/../etc/shadow''"
    by simp
  from unset config(3) have u: "\<not> isPathAllowed None ''/home/pi'' ''/data/sub/file.txt''"
    by blast
  from blank config(4) have b: "\<not> isPathAllowed (Some '' , '') ''/home/pi'' ''/''"
    by blast
  from config paths d s e u b show ?thesis by simp
qed

text \<open>
  Claim C9: the comparison is a comparison of character strings, with no separator
  required after the prefix. Whenever the resolved form of a candidate begins with the
  resolved form of a configured path, the candidate is allowed. So with \<^verbatim>\<open>/data\<close>
  among the configured paths, \<^verbatim>\<open>/database/secret\<close> is allowed, a path that is its
  own resolved form and does not begin with \<^verbatim>\<open>/data/\<close>, so it is not inside that
  directory.
\<close>

theorem path_prefix_without_boundary:
  "(p \<in> set (getAllowedPaths ALLOWED_PATHS) \<and>
      startsWith (resolve cwd targetPath) (resolve cwd p) \<longrightarrow>
      isPathAllowed ALLOWED_PATHS cwd targetPath) \<and>
   (''/data'' \<in> set (getAllowedPaths ALLOWED_PATHS) \<longrightarrow>
      isPathAllowed ALLOWED_PATHS cwd ''/database/secret'') \<and>
   resolve cwd ''/database/secret'' = ''/database/secret'' \<and>
   \<not> startsWith ''/database/secret'' ''/data/''"
proof -
  have general: "isPathAllowed ALLOWED_PATHS cwd targetPath"
    if "p \<in> set (getAllowedPaths ALLOWED_PATHS)"
      "startsWith (resolve cwd targetPath) (resolve cwd p)"
    using that by (auto simp add: isPathAllowed_iff)
  have sibling: "startsWith (resolve cwd ''/database/secret'') (resolve cwd ''/data'')"
    "resolve cwd ''/database/secret'' = ''/database/secret''"
    "\<not> startsWith ''/database/secret'' ''/data/''"
    by (simp_all add: path_eval)
  have "isPathAllowed ALLOWED_PATHS cwd ''/database/secret''"
    if "''/data'' \<in> set (getAllowedPaths ALLOWED_PATHS)"
    using that sibling(1) by (auto simp add: isPathAllowed_iff)
  with general sibling show ?thesis by blast
qed

theorem path_prefix_without_boundary_witness:
  "''/data'' \<in> set (getAllowedPaths (Some ''/srv, /data'')) \<and>
   startsWith (resolve ''/home/pi'' ''/srv/../database/secret'') (resolve ''/home/pi'' ''/data'') \<and>
   isPathAllowed (Some ''/srv, /data'') ''/home/pi'' ''/srv/../database/secret'' \<and>
   isPathAllowed (Some ''/srv, /data'') ''/home/pi'' ''/database/secret''"
  using path_prefix_without_boundary [of "''/data''" "Some ''/srv, /data''" "''/home/pi''"
      "''/srv/../database/secret''"]
  by (simp add: getAllowedPaths_def string_eval path_eval)


section \<open>The statement filter and the row limit\<close>

lemmas number_eval = numberToString_def isSafeInteger_def minThousand_def truthyNumber_def
  hundred_def thousand_def digitsOf.simps

lemma find_forbidden_Some:
  "find P xs = Some w \<Longrightarrow> w \<in> set xs \<and> P w"
  by (induction xs) (auto split: if_splits)

lemma find_forbidden_None: "find P xs = None \<longleftrightarrow> (\<forall>w\<in>set xs. \<not> P w)"
  by (induction xs) auto

lemma query_sqlite_not_select:
  assumes "\<not> startsWith (toLowerCase (trim queryArg)) ''select''"
  shows "query_sqlite (Some db) stringify queryArg limitArg =
           errorResult ''Only SELECT queries are allowed. Use list_tables to see available tables.''"
  using assms by (simp add: query_sqlite_def Let_def)

lemma query_sqlite_forbidden:
  assumes "startsWith (toLowerCase (trim queryArg)) ''select''"
    and "find (\<lambda>word. includesStr (toLowerCase (trim queryArg)) word) forbidden = Some word"
  shows "query_sqlite (Some db) stringify queryArg limitArg =
           errorResult (''Query contains forbidden keyword: '' @ word)"
  using assms by (simp add: query_sqlite_def Let_def)




text \<open>
  A negative limit is smaller than 1000, so it is the effective limit and stands in the
  statement.
\<close>

lemma negative_limit_passed_on:
  "query_sqlite (Some db) stringify ''select * from t'' (Some (Finite (- 5) ''-5'')) =
     execute db stringify ''select * from t LIMIT -5''"
  by (simp add: query_sqlite_def forbidden_def string_eval number_eval)

lemma forbidden_select_star: "\<forall>word\<in>set forbidden. \<not> includesStr ''select * from t'' word"
  by (simp add: forbidden_def)

text \<open>
  Claim C3: with a database open, the handler of \<^verbatim>\<open>query_sqlite\<close> denies every
  query whose normalised text (trimmed, in lower case) does not begin with
  \<^verbatim>\<open>select\<close>, and denies every query whose normalised text contains one of the
  keywords \<^verbatim>\<open>insert\<close>, \<^verbatim>\<open>update\<close>, \<^verbatim>\<open>delete\<close>, \<^verbatim>\<open>drop\<close>,
  \<^verbatim>\<open>alter\<close>, \<^verbatim>\<open>create\<close>, \<^verbatim>\<open>attach\<close>, \<^verbatim>\<open>detach\<close> anywhere: the
  result is an error result, the same for every database, so the statement does not
  reach the database. Without a database every query is refused.
  \<^verbatim>\<open>SELECT * FROM t\<close> is allowed: it is given to the database, with the default
  limit appended.
  \<^verbatim>\<open>select * from t; DROP TABLE t\<close> is denied for its keyword, and
  \<^verbatim>\<open>update t set x=1\<close> is denied.
\<close>

theorem statement_filter:
  "(\<not> startsWith (toLowerCase (trim queryArg)) ''select'' \<longrightarrow>
      query_sqlite (Some db) stringify queryArg limitArg =
        errorResult ''Only SELECT queries are allowed. Use list_tables to see available tables.'') \<and>
   (word \<in> set forbidden \<and> includesStr (toLowerCase (trim queryArg)) word \<longrightarrow>
      (\<exists>denial. isError denial = Some True \<and>
         (\<forall>db' :: 'rows database. query_sqlite (Some db') stringify queryArg limitArg = denial) \<and>
         (startsWith (toLowerCase (trim queryArg)) ''select'' \<longrightarrow>
            (\<exists>found\<in>set forbidden. includesStr (toLowerCase (trim queryArg)) found \<and>
               denial = errorResult (''Query contains forbidden keyword: '' @ found))))) \<and>
   query_sqlite None stringify queryArg limitArg =
     errorResult ''Database not configured or not available'' \<and>
   forbidden = [''insert'', ''update'', ''delete'', ''drop'', ''alter'', ''create'', ''attach'',
                ''detach''] \<and>
   query_sqlite (Some db) stringify ''SELECT * FROM t'' None =
     execute db stringify ''SELECT * FROM t LIMIT 100'' \<and>
   query_sqlite (Some db) stringify ''select * from t; DROP TABLE t'' limitArg =
     errorResult ''Query contains forbidden keyword: drop'' \<and>
   query_sqlite (Some db) stringify ''update t set x=1'' limitArg =
     errorResult ''Only SELECT queries are allowed. Use list_tables to see available tables.''"
  for db :: "'rows database"
proof -
  let ?n = "toLowerCase (trim queryArg)"
  let ?only = "errorResult ''Only SELECT queries are allowed. Use list_tables to see available tables.''"
  have not_select: "\<not> startsWith ?n ''select'' \<Longrightarrow>
      query_sqlite (Some db) stringify queryArg limitArg = ?only" for db :: "'rows database"
    by (rule query_sqlite_not_select)
  have keyword: "\<exists>found\<in>set forbidden. includesStr ?n found \<and>
      (\<forall>db :: 'rows database. query_sqlite (Some db) stringify queryArg limitArg =
         errorResult (''Query contains forbidden keyword: '' @ found))"
    if "word \<in> set forbidden" "includesStr ?n word" "startsWith ?n ''select''"
  proof -
    from that(1,2) have "find (\<lambda>word. includesStr ?n word) forbidden \<noteq> None"
      by (auto simp add: find_forbidden_None)
    then obtain found where f: "find (\<lambda>word. includesStr ?n word) forbidden = Some found"
      by blast
    then have "found \<in> set forbidden \<and> includesStr ?n found"
      by (rule find_forbidden_Some)
    moreover have "query_sqlite (Some db) stringify queryArg limitArg =
         errorResult (''Query contains forbidden keyword: '' @ found)" for db :: "'rows database"
      using that(3) f by (rule query_sqlite_forbidden)
    ultimately show ?thesis by blast
  qed
  have denied: "\<exists>denial. isError denial = Some True \<and>
      (\<forall>db' :: 'rows database. query_sqlite (Some db') stringify queryArg limitArg = denial) \<and>
      (startsWith ?n ''select'' \<longrightarrow>
         (\<exists>found\<in>set forbidden. includesStr ?n found \<and>
            denial = errorResult (''Query contains forbidden keyword: '' @ found)))"
    if w: "word \<in> set forbidden" "includesStr ?n word"
  proof (cases "startsWith ?n ''select''")
    case True
    from keyword [OF w True] obtain found where found: "found \<in> set forbidden"
      "includesStr ?n found"
      "\<And>db :: 'rows database. query_sqlite (Some db) stringify queryArg limitArg =
         errorResult (''Query contains forbidden keyword: '' @ found)"
      by blast
    have "isError (errorResult (''Query contains forbidden keyword: '' @ found)) = Some True"
      by (simp add: errorResult_def)
    with found show ?thesis by blast
  next
    case False
    have "isError ?only = Some True" by (simp add: errorResult_def)
    with False not_select show ?thesis by blast
  qed
  have list: "forbidden = [''insert'', ''update'', ''delete'', ''drop'', ''alter'', ''create'',
      ''attach'', ''detach'']"
    by (simp add: forbidden_def)
  have no_database: "query_sqlite None stringify queryArg limitArg =
      errorResult ''Database not configured or not available''"
    by (simp add: query_sqlite_def)
  have ex1: "query_sqlite (Some db) stringify ''SELECT * FROM t'' None =
      execute db stringify ''SELECT * FROM t LIMIT 100''"
    by (simp add: query_sqlite_def forbidden_def string_eval number_eval)
  have ex2: "query_sqlite (Some db) stringify ''select * from t; DROP TABLE t'' limitArg =
      errorResult ''Query contains forbidden keyword: drop''"
    by (simp add: query_sqlite_def Let_def forbidden_def string_eval)
  have ex3: "query_sqlite (Some db) stringify ''update t set x=1'' limitArg = ?only"
    by (simp add: query_sqlite_def Let_def string_eval)
  from not_select [of db] denied list no_database ex1 ex2 ex3 show ?thesis by blast
qed

theorem statement_filter_witness:
  "\<not> startsWith (toLowerCase (trim ''  Delete from t '')) ''select'' \<and>
   query_sqlite (Some (Inr :: string \<Rightarrow> string + string)) (\<lambda>rows. rows) ''  Delete from t '' None =
     errorResult ''Only SELECT queries are allowed. Use list_tables to see available tables.'' \<and>
   ''create'' \<in> set forbidden \<and>
   includesStr (toLowerCase (trim ''Select created_at From t'')) ''create'' \<and>
   startsWith (toLowerCase (trim ''Select created_at From t'')) ''select'' \<and>
   isError (query_sqlite (Some (Inr :: string \<Rightarrow> string + string)) (\<lambda>rows. rows)
      ''Select created_at From t'' (Some (Finite 5 ''5''))) = Some True"
proof -
  have a: "\<not> startsWith (toLowerCase (trim ''  Delete from t '')) ''select''"
    by (simp add: string_eval)
  have b: "''create'' \<in> set forbidden"
    "includesStr (toLowerCase (trim ''Select created_at From t'')) ''create''"
    "startsWith (toLowerCase (trim ''Select created_at From t'')) ''select''"
    by (simp_all add: forbidden_def string_eval)
  from a statement_filter [of "''  Delete from t ''" "Inr :: string \<Rightarrow> string + string"
      "\<lambda>rows. rows" None "''create''"]
  have c: "query_sqlite (Some (Inr :: string \<Rightarrow> string + string)) (\<lambda>rows. rows)
      ''  Delete from t '' None =
     errorResult ''Only SELECT queries are allowed. Use list_tables to see available tables.''"
    by blast
  from b statement_filter [of "''Select created_at From t''" "Inr :: string \<Rightarrow> string + string"
      "\<lambda>rows. rows" "Some (Finite 5 ''5'')" "''create''"]
  have d: "isError (query_sqlite (Some (Inr :: string \<Rightarrow> string + string)) (\<lambda>rows. rows)
      ''Select created_at From t'' (Some (Finite 5 ''5''))) = Some True"
    by metis
  from a b c d show ?thesis by blast
qed




section \<open>Sessions\<close>

text \<open>
  Every request to \<^verbatim>\<open>/mcp\<close>, whatever its method, is given to the handler of
  \<^verbatim>\<open>app.all\<close> once \<^verbatim>\<open>authMiddleware\<close> has passed it on: that route is
  registered first and matches every method, so the route of \<^verbatim>\<open>app.delete\<close> is
  not reached.
\<close>

lemma mcpEndpoint_route:
  "mcpEndpoint MCP_TOKEN library transports req =
     (case snd (authMiddleware MCP_TOKEN req) of
        Responded status body \<Rightarrow>
          \<lparr>sessions = transports, answer = Json status body, connected = False\<rparr>
      | CalledNext \<Rightarrow> mcpHandler library transports req)"
  by (simp add: mcpEndpoint_def mcpRoutes_def verbMatches_def split: outcome.split)

lemma mcpHandler_unknown:
  assumes "mcpSessionId req = Some sid" and "sid \<noteq> []" and "transports sid = None"
  shows "mcpHandler library transports req =
           \<lparr>sessions = transports, answer = Json 400 [(''error'', ''Invalid session ID'')],
            connected = False\<rparr>"
  using assms by (simp add: mcpHandler_def has_def)

lemma mcpHandler_no_identifier:
  assumes "\<not> truthy (mcpSessionId req)"
  shows "mcpHandler library transports req =
           (if httpMethod req = ''POST'' then
              \<lparr>sessions = fst (handleRequest library \<lparr>sessionId = None\<rparr> req transports),
               answer = snd (handleRequest library \<lparr>sessionId = None\<rparr> req transports),
               connected = True\<rparr>
            else
              \<lparr>sessions = transports,
               answer = Json 200 [(''name'', ''pi-mcp-server''), (''version'', ''1.0.0''),
                                  (''transport'', ''streamable-http'')],
               connected = False\<rparr>)"
  using assms by (simp add: mcpHandler_def Let_def split: prod.split)

lemma deleteHandler_unknown:
  assumes "mcpSessionId req = Some sid" and "transports sid = None"
  shows "deleteHandler transports req =
           \<lparr>sessions = transports, answer = Json 404 [(''error'', ''Session not found'')],
            connected = False\<rparr>"
  using assms by (simp add: deleteHandler_def has_def)

lemma deleteHandler_known:
  assumes "mcpSessionId req = Some sid" and "sid \<noteq> []" and "transports sid = Some transport"
  shows "deleteHandler transports req =
           \<lparr>sessions = (onclose transport transports)(sid := None),
            answer = Json 200 [(''status'', ''closed'')], connected = False\<rparr>"
  using assms by (simp add: deleteHandler_def has_def Let_def)

lemma onclose_other: "sessionId transport \<noteq> Some other \<Longrightarrow> onclose transport transports other = transports other"
  by (cases "sessionId transport") (simp_all add: onclose_def)

lemma onclose_own:
  "sessionId transport = Some sid \<Longrightarrow> sid \<noteq> [] \<Longrightarrow> onclose transport transports = transports(sid := None)"
  by (simp add: onclose_def)

lemma mcpHandler_known_closed:
  assumes "mcpSessionId req = Some sid" and "sid \<noteq> []" and "transports sid = Some transport"
    and "sessionId transport = Some sid"
    and "initialized (library transport req) = None" and "closed (library transport req)"
  shows "mcpHandler library transports req =
           \<lparr>sessions = transports(sid := None),
            answer = FromTransport (reply (library transport req)), connected = False\<rparr>"
  using assms by (simp add: mcpHandler_def has_def handleRequest_def Let_def onclose_own)

text \<open>The handlers keep every transport under its own identifier.\<close>

lemma consistent_delete: "consistent transports \<Longrightarrow> consistent (transports(sid := None))"
  by (simp add: consistent_def)

lemma consistent_onclose: "consistent transports \<Longrightarrow> consistent (onclose transport transports)"
  by (simp add: onclose_def Let_def consistent_delete)

lemma consistent_onsessioninitialized:
  "consistent transports \<Longrightarrow> consistent (onsessioninitialized transport newSessionId transports)"
  by (simp add: consistent_def onsessioninitialized_def)

lemma consistent_handleRequest:
  "consistent transports \<Longrightarrow> consistent (fst (handleRequest library transport req transports))"
  by (simp add: handleRequest_def Let_def consistent_onclose consistent_onsessioninitialized
      split: option.split)

lemma consistent_mcpHandler:
  "consistent transports \<Longrightarrow> consistent (sessions (mcpHandler library transports req))"
  by (simp add: mcpHandler_def Let_def consistent_handleRequest split: prod.split)
    (metis consistent_handleRequest fst_conv)

lemma consistent_deleteHandler:
  "consistent transports \<Longrightarrow> consistent (sessions (deleteHandler transports req :: 'r served))"
  by (simp add: deleteHandler_def Let_def consistent_delete consistent_onclose)

lemma consistent_empty: "consistent Map.empty"
  by (simp add: consistent_def)


text \<open>
  Claim C5: a request that carries a session identifier unknown to the map of transports
  is answered with status 400 and the error \<^verbatim>\<open>Invalid session ID\<close>; the map of
  transports is left as it was and no transport is constructed. The handler reads the
  header by its truthiness, so a request carries an identifier when the header is there
  and not empty: with an empty header the handler takes the branches of a request that
  has none. This is the handler of \<^verbatim>\<open>app.all\<close>, for any method, and so the
  endpoint for every request that \<^verbatim>\<open>authMiddleware\<close> passes on; a request that it
  rejects leaves the map as it was too. The handler of \<^verbatim>\<open>app.delete\<close> answers such
  a request with status 404 and \<^verbatim>\<open>Session not found\<close>, and leaves the map as it
  was.
\<close>

theorem unknown_session_rejected:
  fixes library :: "'r library"
  assumes "mcpSessionId req = Some sid" and "sid \<noteq> []" and "transports sid = None"
  shows "mcpHandler library transports req =
           \<lparr>sessions = transports, answer = Json 400 [(''error'', ''Invalid session ID'')],
            connected = False\<rparr> \<and>
         (snd (authMiddleware MCP_TOKEN req) = CalledNext \<longrightarrow>
            mcpEndpoint MCP_TOKEN library transports req =
              \<lparr>sessions = transports, answer = Json 400 [(''error'', ''Invalid session ID'')],
               connected = False\<rparr>) \<and>
         sessions (mcpEndpoint MCP_TOKEN library transports req) = transports \<and>
         \<not> connected (mcpEndpoint MCP_TOKEN library transports req) \<and>
         deleteHandler transports req =
           (\<lparr>sessions = transports, answer = Json 404 [(''error'', ''Session not found'')],
             connected = False\<rparr> :: 'r served)"
proof -
  have unknown: "mcpHandler library transports req =
      \<lparr>sessions = transports, answer = Json 400 [(''error'', ''Invalid session ID'')],
       connected = False\<rparr>"
    using assms by (rule mcpHandler_unknown)
  have delete: "deleteHandler transports req =
      (\<lparr>sessions = transports, answer = Json 404 [(''error'', ''Session not found'')],
        connected = False\<rparr> :: 'r served)"
    using assms(1,3) by (rule deleteHandler_unknown)
  have "sessions (mcpEndpoint MCP_TOKEN library transports req) = transports \<and>
        \<not> connected (mcpEndpoint MCP_TOKEN library transports req)"
    by (simp add: mcpEndpoint_route unknown split: outcome.split)
  moreover have "snd (authMiddleware MCP_TOKEN req) = CalledNext \<Longrightarrow>
      mcpEndpoint MCP_TOKEN library transports req =
        \<lparr>sessions = transports, answer = Json 400 [(''error'', ''Invalid session ID'')],
         connected = False\<rparr>"
    by (simp add: mcpEndpoint_route unknown)
  moreover note unknown delete
  ultimately show ?thesis by blast
qed


theorem unknown_session_rejected_witness:
  "mcpSessionId \<lparr>httpMethod = ''POST'', ip = ''10.0.0.7'', authorization = Some ''Bearer secret'',
                  mcpSessionId = Some ''gone''\<rparr> = Some ''gone'' \<and>
   ''gone'' \<noteq> [] \<and>
   (Map.empty(''live'' \<mapsto> \<lparr>sessionId = Some ''live''\<rparr>)) ''gone'' = None \<and>
   snd (authMiddleware (Some ''secret'')
     \<lparr>httpMethod = ''POST'', ip = ''10.0.0.7'', authorization = Some ''Bearer secret'',
      mcpSessionId = Some ''gone''\<rparr>) = CalledNext \<and>
   mcpEndpoint (Some ''secret'')
     (\<lambda>transport req. \<lparr>initialized = Some ''fresh'', closed = False, reply = ''ok''\<rparr>)
     (Map.empty(''live'' \<mapsto> \<lparr>sessionId = Some ''live''\<rparr>))
     \<lparr>httpMethod = ''POST'', ip = ''10.0.0.7'', authorization = Some ''Bearer secret'',
      mcpSessionId = Some ''gone''\<rparr> =
     \<lparr>sessions = Map.empty(''live'' \<mapsto> \<lparr>sessionId = Some ''live''\<rparr>),
      answer = Json 400 [(''error'', ''Invalid session ID'')], connected = False\<rparr>"
proof -
  let ?req = "\<lparr>httpMethod = ''POST'', ip = ''10.0.0.7'', authorization = Some ''Bearer secret'',
        mcpSessionId = Some ''gone''\<rparr>"
  let ?transports = "Map.empty(''live'' \<mapsto> \<lparr>sessionId = Some ''live''\<rparr>)"
  have a: "mcpSessionId ?req = Some ''gone''" "''gone'' \<noteq> []" "?transports ''gone'' = None"
    by simp_all
  have b: "snd (authMiddleware (Some ''secret'') ?req) = CalledNext"
    by (simp add: authMiddleware_def)
  from a b unknown_session_rejected [of ?req "''gone''" ?transports
      "\<lambda>transport req. \<lparr>initialized = Some ''fresh'', closed = False, reply = ''ok''\<rparr>"
      "Some ''secret''"]
  have "mcpEndpoint (Some ''secret'')
     (\<lambda>transport req. \<lparr>initialized = Some ''fresh'', closed = False, reply = ''ok''\<rparr>)
     ?transports ?req =
     \<lparr>sessions = ?transports,
      answer = Json 400 [(''error'', ''Invalid session ID'')], connected = False\<rparr>"
    by blast
  with a b show ?thesis by blast
qed


section \<open>Dispatch\<close>

lemma callTool_absorbs:
  assumes "getToolHandler toolRegistry name = Some h" and "h args = Rejected error"
    and "errorMessage error = Inr message"
  shows "callTool toolRegistry name args =
           Fulfilled \<lparr>content = [textBlock (''Tool error: '' @ message)], isError = Some True\<rparr>"
  using assms by (simp add: callTool_def)

lemma callTool_rejects:
  assumes "getToolHandler toolRegistry name = Some h" and "h args = Rejected error"
    and "errorMessage error = Inl fault"
  shows "callTool toolRegistry name args = Rejected fault"
  using assms by (simp add: callTool_def)

text \<open>
  Claim C7: for a name that is not a key of the registry and any arguments,
  \<^verbatim>\<open>callTool\<close> fulfils its promise with a result whose \<^verbatim>\<open>isError\<close> is true and
  whose text is \<^verbatim>\<open>Unknown tool: \<close> followed by the name, so the text contains the
  name; the promise is not rejected.
\<close>

theorem dispatch_unknown_tool:
  assumes "name \<notin> fst ` set toolRegistry"
  shows "callTool toolRegistry name args =
           Fulfilled \<lparr>content = [textBlock (''Unknown tool: '' @ name)], isError = Some True\<rparr> \<and>
         includesStr (''Unknown tool: '' @ name) name \<and>
         (\<forall>error. callTool toolRegistry name args \<noteq> Rejected error)"
proof -
  from assms have "map_of toolRegistry name = None"
    by (simp add: map_of_eq_None_iff)
  then have "callTool toolRegistry name args =
      Fulfilled \<lparr>content = [textBlock (''Unknown tool: '' @ name)], isError = Some True\<rparr>"
    by (simp add: callTool_def getToolHandler_def)
  moreover have "includesStr (''Unknown tool: '' @ name) name"
    by (rule includes_suffix)
  ultimately show ?thesis by simp
qed

theorem dispatch_unknown_tool_witness:
  "''nope'' \<notin> fst ` set (registerTool
      \<lparr>toolName = ''echo'',
       handler = (\<lambda>args. Fulfilled \<lparr>content = [textBlock args], isError = None\<rparr>)\<rparr> []) \<and>
   callTool (registerTool
      \<lparr>toolName = ''echo'',
       handler = (\<lambda>args. Fulfilled \<lparr>content = [textBlock args], isError = None\<rparr>)\<rparr> [])
     ''nope'' ''hello'' =
     Fulfilled \<lparr>content = [\<lparr>blockType = ''text'', blockText = ''Unknown tool: nope''\<rparr>],
                isError = Some True\<rparr>"
  using dispatch_unknown_tool [of "''nope''" "registerTool
      \<lparr>toolName = ''echo'',
       handler = (\<lambda>args. Fulfilled \<lparr>content = [textBlock args], isError = None\<rparr>)\<rparr> []"
      "''hello''"]
  by (simp add: registerTool_def textBlock_def)

text \<open>
  Claim C8 says that for a registered tool whose handler throws, \<^verbatim>\<open>callTool\<close>
  returns an error result with the message of the fault, and that no exception gets
  past it. \<^verbatim>\<open>callTool\<close> does so for a fault that is an instance of
  \<^verbatim>\<open>Error\<close> with a message that converts to a string, and for any other value
  that \<^verbatim>\<open>String\<close> converts: the text is \<^verbatim>\<open>Tool error: \<close> followed by that
  string. For a fault whose conversion throws, the \<^verbatim>\<open>catch\<close> clause throws in its
  turn and the promise of \<^verbatim>\<open>callTool\<close> is rejected: so for the tool
  \<^verbatim>\<open>boom\<close> below, whose handler throws \<^verbatim>\<open>Object.create(null)\<close>, the promise is
  rejected with the \<^verbatim>\<open>TypeError\<close> of \<^verbatim>\<open>String\<close>.
\<close>

theorem dispatch_fault_conversion:
  assumes "getToolHandler toolRegistry name = Some h"
  shows
  "(h args = Rejected (ErrorInstance (Inr message)) \<or> h args = Rejected (OtherValue (Inr message)) \<longrightarrow>
      callTool toolRegistry name args =
        Fulfilled \<lparr>content = [\<lparr>blockType = ''text'', blockText = ''Tool error: '' @ message\<rparr>],
                   isError = Some True\<rparr> \<and>
      includesStr (''Tool error: '' @ message) message) \<and>
   (h args = Rejected (ErrorInstance (Inl fault)) \<or> h args = Rejected (OtherValue (Inl fault)) \<longrightarrow>
      callTool toolRegistry name args = Rejected fault) \<and>
   callTool
     (registerTool
        \<lparr>toolName = ''boom'',
         handler = (\<lambda>args. Rejected (OtherValue (Inl (ErrorInstance
           (Inr ''Cannot convert object to primitive value'')))))\<rparr> [])
     ''boom'' args =
     Rejected (ErrorInstance (Inr ''Cannot convert object to primitive value''))"
proof -
  have absorbed: "callTool toolRegistry name args =
        Fulfilled \<lparr>content = [\<lparr>blockType = ''text'', blockText = ''Tool error: '' @ message\<rparr>],
                   isError = Some True\<rparr>"
    if "h args = Rejected (ErrorInstance (Inr message)) \<or>
        h args = Rejected (OtherValue (Inr message))"
    using assms that by (auto simp add: callTool_def errorMessage_def textBlock_def)
  have contained: "includesStr (''Tool error: '' @ message) message"
    by (rule includes_suffix)
  have rejected: "callTool toolRegistry name args = Rejected fault"
    if "h args = Rejected (ErrorInstance (Inl fault)) \<or>
        h args = Rejected (OtherValue (Inl fault))"
    using assms that by (auto simp add: callTool_def errorMessage_def)
  have boom: "callTool
     (registerTool
        \<lparr>toolName = ''boom'',
         handler = (\<lambda>args. Rejected (OtherValue (Inl (ErrorInstance
           (Inr ''Cannot convert object to primitive value'')))))\<rparr> [])
     ''boom'' args =
     Rejected (ErrorInstance (Inr ''Cannot convert object to primitive value''))"
    by (simp add: callTool_def registerTool_def getToolHandler_def errorMessage_def)
  from absorbed contained rejected boom show ?thesis by blast
qed

theorem dispatch_fault_conversion_witness:
  "getToolHandler (registerTool
      \<lparr>toolName = ''boom'',
       handler = (\<lambda>args. if args = ''disk'' then Rejected (ErrorInstance (Inr ''no disk''))
                         else Rejected (OtherValue (Inl (OtherValue (Inr ''TypeError'')))))\<rparr> [])
     ''boom'' =
     Some (\<lambda>args. if args = ''disk'' then Rejected (ErrorInstance (Inr ''no disk''))
                   else Rejected (OtherValue (Inl (OtherValue (Inr ''TypeError''))))) \<and>
   callTool (registerTool
      \<lparr>toolName = ''boom'',
       handler = (\<lambda>args. if args = ''disk'' then Rejected (ErrorInstance (Inr ''no disk''))
                         else Rejected (OtherValue (Inl (OtherValue (Inr ''TypeError'')))))\<rparr> [])
     ''boom'' ''disk'' =
     Fulfilled \<lparr>content = [\<lparr>blockType = ''text'', blockText = ''Tool error: no disk''\<rparr>],
                isError = Some True\<rparr> \<and>
   callTool (registerTool
      \<lparr>toolName = ''boom'',
       handler = (\<lambda>args. if args = ''disk'' then Rejected (ErrorInstance (Inr ''no disk''))
                         else Rejected (OtherValue (Inl (OtherValue (Inr ''TypeError'')))))\<rparr> [])
     ''boom'' ''null'' = Rejected (OtherValue (Inr ''TypeError''))"
proof -
  let ?h = "\<lambda>args. if args = ''disk'' then Rejected (ErrorInstance (Inr ''no disk''))
                   else Rejected (OtherValue (Inl (OtherValue (Inr ''TypeError''))))"
  let ?registry = "registerTool \<lparr>toolName = ''boom'', handler = ?h\<rparr> []"
  have registered: "getToolHandler ?registry ''boom'' = Some ?h"
    by (simp add: registerTool_def getToolHandler_def)
  have thrown: "?h ''disk'' = Rejected (ErrorInstance (Inr ''no disk''))"
    "?h ''null'' = Rejected (OtherValue (Inl (OtherValue (Inr ''TypeError''))))"
    by simp_all
  from dispatch_fault_conversion [OF registered, of "''disk''" "''no disk''"] thrown(1)
  have "callTool ?registry ''boom'' ''disk'' =
     Fulfilled \<lparr>content = [\<lparr>blockType = ''text'', blockText = ''Tool error: no disk''\<rparr>],
                isError = Some True\<rparr>"
    by simp
  moreover
  from dispatch_fault_conversion [OF registered, of "''null''" _ "OtherValue (Inr ''TypeError'')"]
    thrown(2)
  have "callTool ?registry ''boom'' ''null'' = Rejected (OtherValue (Inr ''TypeError''))"
    by blast
  ultimately show ?thesis using registered by blast
qed

end
